theory Spec2Isabelle
  imports Complex_Main "HOL-Library.Multiset"
begin

section \<open>Fall-risk predictor form (app.py)\<close>

text \<open>
  The program is one script: it loads a model bundle, reads eleven widgets, assembles a
  one-row frame in the bundle's column order and, when the Predict button is pressed,
  checks the five device measurements, asks the classifier for the class probabilities and
  renders the thresholded label. Python floats are modelled as reals (every finite float is
  one); strings are byte lists, a character outside ASCII being its UTF-8 bytes.
\<close>

subsection \<open>Values, frames and the classifier\<close>

text \<open>A dictionary value is a Python int or a Python float.\<close>

datatype val = IntVal int | FloatVal real

text \<open>
  One row of a data frame: the column labels in order, each with its cell; a cell that the
  source dictionary has no entry for is NaN, here \<open>None\<close>.
\<close>

type_synonym frame = "(string \<times> val option) list"

text \<open>What \<open>predict_proba\<close> returns: one row per input row, one column per class.\<close>

type_synonym matrix = "real list list"

text \<open>
  The classifier is an opaque object of the bundle: \<open>predict_proba\<close> is a method on it, so it
  reads the object's state \<open>'m\<close> and may leave another behind.
\<close>

type_synonym 'm classifier = "'m \<Rightarrow> frame \<Rightarrow> matrix \<times> 'm"

subsection \<open>Loading the bundle (lines 9-12)\<close>




datatype error = MissingMeasurement "string list" | IndexError




subsection \<open>The widgets (lines 23-97)\<close>

text \<open>The bounds and the default a \<open>st.number_input\<close> or \<open>st.slider\<close> is created with.\<close>

record number_input =
  min_value :: "real option"
  max_value :: "real option"
  default :: real

definition in_bounds :: "number_input \<Rightarrow> real \<Rightarrow> bool" where
  "in_bounds w v =
     ((case min_value w of None \<Rightarrow> True | Some lo \<Rightarrow> lo \<le> v) \<and>
      (case max_value w of None \<Rightarrow> True | Some hi \<Rightarrow> v \<le> hi))"

definition height_input :: number_input where
  "height_input = \<lparr>min_value = Some 80, max_value = Some 250, default = 170\<rparr>"

definition medication_input :: number_input where
  "medication_input = \<lparr>min_value = Some 0, max_value = Some 50, default = 0\<rparr>"

definition odi_input :: number_input where
  "odi_input = \<lparr>min_value = Some 0, max_value = Some 100, default = 10\<rparr>"

definition vas_input :: number_input where
  "vas_input = \<lparr>min_value = Some 0, max_value = Some 10, default = 2\<rparr>"

text \<open>The five device fields are created with a default and a step only.\<close>

definition device_input :: number_input where
  "device_input = \<lparr>min_value = None, max_value = None, default = 0\<rparr>"

text \<open>What the widgets return in one run of the script.\<close>

record form =
  gender_txt :: string
  height_cm :: real
  hypertension :: int
  medication_count :: int
  odi :: real
  vas :: real
  ps_velocity :: real
  ps_sway_area :: real
  ps_sway_path :: real
  w_velocity :: real
  w_duration :: real
  predict_pressed :: bool

definition gender :: "form \<Rightarrow> int" where
  "gender f = (if gender_txt f = ''Female'' then 0 else 1)"

text \<open>The values the widgets can return: the options of the select boxes and the bounds.\<close>

definition form_ok :: "form \<Rightarrow> bool" where
  "form_ok f =
     ((gender_txt f = ''Female'' \<or> gender_txt f = ''Male'') \<and>
      in_bounds height_input (height_cm f) \<and>
      (hypertension f = 0 \<or> hypertension f = 1) \<and>
      in_bounds medication_input (real_of_int (medication_count f)) \<and>
      in_bounds odi_input (odi f) \<and>
      in_bounds vas_input (vas f) \<and>
      in_bounds device_input (ps_velocity f) \<and>
      in_bounds device_input (ps_sway_area f) \<and>
      in_bounds device_input (ps_sway_path f) \<and>
      in_bounds device_input (w_velocity f) \<and>
      in_bounds device_input (w_duration f))"

subsection \<open>The input row (lines 104-119)\<close>

definition input_dict :: "form \<Rightarrow> (string \<times> val) list" where
  "input_dict f =
     [(''Gender'', IntVal (gender f)),
      (''Height'', FloatVal (height_cm f)),
      (''Hypertension'', IntVal (hypertension f)),
      (''ODI'', FloatVal (odi f)),
      (''VAS'', FloatVal (vas f)),
      (''PS_Velocity'', FloatVal (ps_velocity f)),
      (''PS_Sway_Area'', FloatVal (ps_sway_area f)),
      (''PS_Sway_Path'', FloatVal (ps_sway_path f)),
      (''W_Velocity'', FloatVal (w_velocity f)),
      (''W_Duration'', FloatVal (w_duration f)),
      (''Medication_Count'', IntVal (medication_count f))]"

text \<open>
  \<open>pd.DataFrame([d], columns=cols)\<close>: the columns are \<open>cols\<close>, in that order; each cell is
  the dictionary's value under the column's label, NaN when there is none.
\<close>

definition DataFrame :: "(string \<times> val) list \<Rightarrow> string list \<Rightarrow> frame" where
  "DataFrame d cols = map (\<lambda>c. (c, map_of d c)) cols"

definition X_input :: "string list \<Rightarrow> form \<Rightarrow> frame" where
  "X_input FEATURES f = DataFrame (input_dict f) FEATURES"


subsection \<open>Validation (lines 126-142)\<close>

definition required_fields :: "form \<Rightarrow> (string \<times> real) list" where
  "required_fields f =
     [(''Postural Stability Velocity'', ps_velocity f),
      (''Postural Stability Sway Area'', ps_sway_area f),
      (''Postural Stability Sway Path'', ps_sway_path f),
      (''Walking Velocity'', w_velocity f),
      (''Walking Duration'', w_duration f)]"

definition missing :: "form \<Rightarrow> string list" where
  "missing f = map fst (filter (\<lambda>(name, v). v = 0) (required_fields f))"

fun join :: "string \<Rightarrow> string list \<Rightarrow> string" where
  "join sep [] = ''''"
| "join sep [x] = x"
| "join sep (x # y # ys) = x @ sep @ join sep (y # ys)"

definition warning_text :: "string list \<Rightarrow> string" where
  "warning_text ms =
     [CHR 0xE2, CHR 0x9A, CHR 0xA0, CHR 0xEF, CHR 0xB8, CHR 0x8F] @
     '' Please complete the Postural Stability and Walking test measurements '' @
     ''using the Lockhart Monitor app before prediction.'' @ [CHR 0x0A, CHR 0x0A] @
     ''Missing or zero values: '' @ join '', '' ms"

subsection \<open>Prediction and rendering (lines 144-154)\<close>

text \<open>\<open>a[0, 1]\<close> on the returned array: row 0, column 1, an IndexError when there is none.\<close>

definition index01 :: "matrix \<Rightarrow> real option" where
  "index01 a =
     (case a of
        [] \<Rightarrow> None
      | r # _ \<Rightarrow> (case r of [] \<Rightarrow> None | [_] \<Rightarrow> None | _ # p # _ \<Rightarrow> Some p))"

definition label :: "real \<Rightarrow> int" where
  "label p = (if p \<ge> 0.50 then 1 else 0)"

record prediction =
  proba_fall :: real
  pred :: int

text \<open>
  The format \<open>.3f\<close>: the sign, the integer part in decimal, a point and three digits, the
  value rounded to the nearest thousandth, a tie to the even one.
\<close>

definition round_half_even :: "real \<Rightarrow> int" where
  "round_half_even x =
     (let n = \<lfloor>x\<rfloor>; d = x - of_int n
      in if d < 1/2 then n else if d > 1/2 then n + 1 else if even n then n else n + 1)"

definition digit :: "nat \<Rightarrow> char" where
  "digit n = ''0123456789'' ! (n mod 10)"

fun str_nat :: "nat \<Rightarrow> string" where
  "str_nat n = (if n < 10 then [digit n] else str_nat (n div 10) @ [digit n])"

declare str_nat.simps [simp del]

definition format_3f :: "real \<Rightarrow> string" where
  "format_3f x =
     (let n = nat (round_half_even (\<bar>x\<bar> * 1000))
      in (if x < 0 then ''-'' else '''') @ str_nat (n div 1000) @ ''.'' @
         [digit (n div 100), digit (n div 10), digit n])"

definition str_int :: "int \<Rightarrow> string" where
  "str_int i = (if i < 0 then ''-'' else '''') @ str_nat (nat \<bar>i\<bar>)"

text \<open>What the prediction section puts on the page.\<close>

datatype element = Write string | Warning string | Error string | Success string

definition render :: "prediction \<Rightarrow> element list" where
  "render r =
     [Write (''**Probability of Faller (%):** `'' @ format_3f (proba_fall r) @ ''`''),
      Write (''**Predicted Fall Status:** `'' @ str_int (pred r) @ ''`''),
      (if pred r = 1
       then Error ''**High Fall Risk** (Predicted: Faller = 1)''
       else Success ''**Low Fall Risk** (Predicted: Non-faller = 0)'')]"

text \<open>
  One pass through the body of \<open>if st.button("Predict")\<close>: the result, what was rendered,
  the frames \<open>predict_proba\<close> was called with, and the classifier object afterwards.
\<close>

record 'm run =
  result :: "error + prediction"
  shown :: "element list"
  calls :: "frame list"
  model_after :: 'm

definition validate_and_predict ::
  "'m classifier \<Rightarrow> string list \<Rightarrow> 'm \<Rightarrow> form \<Rightarrow> 'm run" where
  "validate_and_predict predict_proba FEATURES m f =
     (if length (missing f) > 0
      then \<lparr>result = Inl (MissingMeasurement (missing f)),
            shown = [Warning (warning_text (missing f))],
            calls = [], model_after = m\<rparr>
      else
        (let X = X_input FEATURES f;
             (a, m') = predict_proba m X
         in case index01 a of
              None \<Rightarrow> \<lparr>result = Inl IndexError, shown = [], calls = [X], model_after = m'\<rparr>
            | Some p \<Rightarrow>
                (let r = \<lparr>proba_fall = p, pred = label p\<rparr>
                 in \<lparr>result = Inr r, shown = render r, calls = [X], model_after = m'\<rparr>)))"


text \<open>
  What an execution of the script does, in the order it does it: the load of the artifact,
  the calls of \<open>predict_proba\<close>, the elements the prediction section renders.
\<close>

datatype event = Load string | Call frame | Render element





fun rendered :: "event list \<Rightarrow> element list" where
  "rendered [] = []"
| "rendered (Render e # es) = e # rendered es"
| "rendered (_ # es) = rendered es"

text \<open>The two coloured banners are the \<open>st.error\<close> and the \<open>st.success\<close> elements.\<close>

fun is_banner :: "element \<Rightarrow> bool" where
  "is_banner (Error _) = True"
| "is_banner (Success _) = True"
| "is_banner _ = False"

text \<open>
  The shape of an answer of \<open>predict_proba\<close> on a frame: at least one row, each row with
  a probability for at least two classes.
\<close>

definition class_probabilities :: "matrix \<Rightarrow> bool" where
  "class_probabilities a =
     (a \<noteq> [] \<and> list_all (\<lambda>row. 2 \<le> length row \<and> list_all (\<lambda>p. 0 \<le> p \<and> p \<le> 1) row) a)"

text \<open>All five device measurements were entered as something other than zero.\<close>

definition measured :: "form \<Rightarrow> bool" where
  "measured f =
     (ps_velocity f \<noteq> 0 \<and> ps_sway_area f \<noteq> 0 \<and> ps_sway_path f \<noteq> 0 \<and>
      w_velocity f \<noteq> 0 \<and> w_duration f \<noteq> 0)"

subsection \<open>Sample inputs\<close>

text \<open>The scenario of the specification: the device values entered, the rest at its default.\<close>

definition sample_form :: form where
  "sample_form =
     \<lparr>gender_txt = ''Female'', height_cm = 170, hypertension = 0, medication_count = 0,
      odi = 10, vas = 2, ps_velocity = 12.3, ps_sway_area = 4.5, ps_sway_path = 30,
      w_velocity = 0.9, w_duration = 6.2, predict_pressed = True\<rparr>"

definition sample_features :: "string list" where
  "sample_features =
     [''Height'', ''Gender'', ''ODI'', ''VAS'', ''Hypertension'', ''Medication_Count'',
      ''W_Duration'', ''W_Velocity'', ''PS_Sway_Path'', ''PS_Sway_Area'', ''PS_Velocity'']"

text \<open>A classifier that counts its calls and scores by the ODI column alone.\<close>

definition sample_classifier :: "nat classifier" where
  "sample_classifier m X =
     (case map_of X ''ODI'' of
        Some (Some (FloatVal v)) \<Rightarrow> if v \<ge> 40 then [[0.25, 0.75]] else [[0.875, 0.125]]
      | _ \<Rightarrow> [[0.5, 0.5]],
      Suc m)"






section \<open>Properties\<close>

subsection \<open>Auxiliary facts\<close>

lemma missing_Nil_iff: "missing f = [] \<longleftrightarrow> measured f"
  by (simp add: missing_def required_fields_def measured_def)

lemma set_missing:
  "set (missing f) =
     {n. n = ''Postural Stability Velocity'' \<and> ps_velocity f = 0} \<union>
     {n. n = ''Postural Stability Sway Area'' \<and> ps_sway_area f = 0} \<union>
     {n. n = ''Postural Stability Sway Path'' \<and> ps_sway_path f = 0} \<union>
     {n. n = ''Walking Velocity'' \<and> w_velocity f = 0} \<union>
     {n. n = ''Walking Duration'' \<and> w_duration f = 0}"
  by (auto simp add: missing_def required_fields_def)

lemma distinct_missing: "distinct (missing f)"
  by (simp add: missing_def required_fields_def)

lemma vp_missing:
  "\<not> measured f \<Longrightarrow>
   validate_and_predict pp F m f =
     \<lparr>result = Inl (MissingMeasurement (missing f)),
      shown = [Warning (warning_text (missing f))], calls = [], model_after = m\<rparr>"
  by (simp add: validate_and_predict_def missing_Nil_iff)

lemma vp_measured:
  "measured f \<Longrightarrow>
   validate_and_predict pp F m f =
     (case index01 (fst (pp m (X_input F f))) of
        None \<Rightarrow> \<lparr>result = Inl IndexError, shown = [], calls = [X_input F f],
                  model_after = snd (pp m (X_input F f))\<rparr>
      | Some p \<Rightarrow> \<lparr>result = Inr \<lparr>proba_fall = p, pred = label p\<rparr>,
                    shown = render \<lparr>proba_fall = p, pred = label p\<rparr>,
                    calls = [X_input F f], model_after = snd (pp m (X_input F f))\<rparr>)"
  by (simp add: validate_and_predict_def missing_Nil_iff Let_def split: prod.splits option.splits)


subsection \<open>Column order of the frame\<close>





lemma measured_sample: "measured sample_form"
  by (simp add: measured_def sample_form_def)


subsection \<open>The label\<close>

text \<open>
  C3: whatever probability \<open>p\<close> the classifier returns for the positive class, the run
  succeeds with that probability and with the label that is 1 exactly when \<open>p \<ge> 0.50\<close> and 0
  exactly when \<open>p < 0.50\<close>; no input of the run changes the threshold.
\<close>

theorem label_by_threshold:
  assumes "measured f" and "index01 (fst (predict_proba m (X_input FEATURES f))) = Some p"
  shows "result (validate_and_predict predict_proba FEATURES m f) =
           Inr \<lparr>proba_fall = p, pred = label p\<rparr> \<and>
         (label p = 1 \<longleftrightarrow> p \<ge> 0.50) \<and> (label p = 0 \<longleftrightarrow> p < 0.50)"
  using assms by (simp add: vp_measured label_def)

lemma sample_answer:
  "fst (sample_classifier m (X_input sample_features sample_form)) = [[0.875, 0.125]]"
  by (simp add: sample_classifier_def X_input_def DataFrame_def input_dict_def
      sample_features_def sample_form_def)

text \<open>An ODI of 10 scores 0.125 and is labelled 0; an ODI of 50 scores 0.75 and is labelled 1.\<close>

theorem label_by_threshold_witness:
  "result (validate_and_predict sample_classifier sample_features 0 sample_form) =
     Inr \<lparr>proba_fall = 0.125, pred = 0\<rparr> \<and>
   result (validate_and_predict sample_classifier sample_features 0 (sample_form\<lparr>odi := 50\<rparr>)) =
     Inr \<lparr>proba_fall = 0.75, pred = 1\<rparr>"
proof -
  have a: "index01 (fst (sample_classifier 0 (X_input sample_features sample_form))) = Some 0.125"
    by (simp add: sample_answer index01_def)
  have m: "measured (sample_form\<lparr>odi := 50\<rparr>)"
    by (simp add: measured_def sample_form_def)
  have b: "index01 (fst (sample_classifier 0 (X_input sample_features (sample_form\<lparr>odi := 50\<rparr>))))
           = Some 0.75"
    by (simp add: sample_classifier_def X_input_def DataFrame_def input_dict_def
      sample_features_def sample_form_def index01_def)
  show ?thesis
    using label_by_threshold
            [where f = sample_form and predict_proba = sample_classifier and m = 0
               and FEATURES = sample_features and p = "0.125"]
          label_by_threshold
            [where f = "sample_form\<lparr>odi := 50\<rparr>" and predict_proba = sample_classifier
               and m = 0 and FEATURES = sample_features and p = "0.75"]
          measured_sample a m b
    by (simp add: label_def)
qed

subsection \<open>Range of the probability\<close>

lemma index01_class_probabilities:
  assumes "class_probabilities a"
  shows "\<exists>p. index01 a = Some p \<and> 0 \<le> p \<and> p \<le> 1"
proof -
  from assms obtain r rs where a: "a = r # rs"
    by (cases a) (simp_all add: class_probabilities_def)
  with assms have len: "2 \<le> length r" and rng: "list_all (\<lambda>p. 0 \<le> p \<and> p \<le> 1) r"
    by (simp_all add: class_probabilities_def)
  from len obtain x p ps where r: "r = x # p # ps"
    by (cases r; cases "tl r") auto
  with rng have "0 \<le> p \<and> p \<le> 1"
    by simp
  with a r show ?thesis
    by (simp add: index01_def)
qed

text \<open>
  C6: when all five device measurements are nonzero and the classifier answers the frame with
  class probabilities (at least one row, at least two classes, every entry in [0,1]), the run
  succeeds and the probability it returns lies in [0,1].
\<close>

theorem probability_in_unit_interval:
  assumes "measured f"
    and "class_probabilities (fst (predict_proba m (X_input FEATURES f)))"
  shows "\<exists>r. result (validate_and_predict predict_proba FEATURES m f) = Inr r \<and>
             0 \<le> proba_fall r \<and> proba_fall r \<le> 1"
proof -
  from assms(2) obtain p
    where p: "index01 (fst (predict_proba m (X_input FEATURES f))) = Some p" "0 \<le> p" "p \<le> 1"
    using index01_class_probabilities by blast
  from assms(1) p(1)
  have "result (validate_and_predict predict_proba FEATURES m f) =
          Inr \<lparr>proba_fall = p, pred = label p\<rparr>"
    by (simp add: vp_measured)
  with p(2,3) show ?thesis
    by simp
qed

text \<open>
  The scenario of the specification: the sample classifier answers with probabilities and the
  run returns 0.125.
\<close>

theorem probability_in_unit_interval_witness:
  "result (validate_and_predict sample_classifier sample_features 0 sample_form) =
     Inr \<lparr>proba_fall = 0.125, pred = 0\<rparr> \<and> (0::real) \<le> 0.125 \<and> (0.125::real) \<le> 1"
proof -
  have cp: "class_probabilities
      (fst (sample_classifier 0 (X_input sample_features sample_form)))"
    by (simp add: sample_answer class_probabilities_def)
  have r: "result (validate_and_predict sample_classifier sample_features 0 sample_form) =
     Inr \<lparr>proba_fall = 0.125, pred = 0\<rparr>"
    by (simp add: vp_measured [OF measured_sample] sample_answer index01_def label_def)
  from probability_in_unit_interval
         [where f = sample_form and predict_proba = sample_classifier and m = 0
            and FEATURES = sample_features] measured_sample cp r
  show ?thesis
    by simp
qed

subsection \<open>Facts about the rendered text\<close>

lemma digit_decimal: "digit n \<in> set ''0123456789''"
  unfolding digit_def by (rule nth_mem) simp

lemma str_nat_decimal: "set (str_nat n) \<subseteq> set ''0123456789''"
proof (induction n rule: str_nat.induct)
  case (1 n)
  show ?case
  proof (cases "n < 10")
    case True
    then have "str_nat n = [digit n]"
      by (subst str_nat.simps) simp
    with digit_decimal [of n] show ?thesis
      by simp
  next
    case False
    then have "str_nat n = str_nat (n div 10) @ [digit n]"
      by (subst str_nat.simps) simp
    with 1 False digit_decimal [of n] show ?thesis
      by simp
  qed
qed

lemma format_3f_shape:
  "\<exists>s a b c. format_3f x = s @ ''.'' @ [a, b, c] \<and>
     a \<in> set ''0123456789'' \<and> b \<in> set ''0123456789'' \<and> c \<in> set ''0123456789'' \<and>
     CHR ''.'' \<notin> set s"
proof -
  define n where "n = nat (round_half_even (\<bar>x\<bar> * 1000))"
  define s where "s = (if x < 0 then ''-'' else '''') @ str_nat (n div 1000)"
  have "format_3f x = s @ ''.'' @ [digit (n div 100), digit (n div 10), digit n]"
    by (simp add: format_3f_def Let_def n_def s_def)
  moreover have "CHR ''.'' \<notin> set s"
    using str_nat_decimal [of "n div 1000"] by (auto simp add: s_def)
  ultimately show ?thesis
    using digit_decimal by blast
qed

lemma label_cases: "label p = 1 \<or> label p = 0"
  by (simp add: label_def)

lemma str_int_label: "str_int (label p) = (if p \<ge> 0.50 then ''1'' else ''0'')"
  by (simp add: label_def str_int_def str_nat.simps digit_def)

lemma result_Inr:
  assumes "result (validate_and_predict pp F m f) = Inr r"
  shows "measured f \<and> index01 (fst (pp m (X_input F f))) = Some (proba_fall r) \<and>
         pred r = label (proba_fall r) \<and> shown (validate_and_predict pp F m f) = render r"
proof (cases "measured f")
  case True
  with assms show ?thesis
    by (auto simp add: vp_measured split: option.splits)
next
  case False
  with assms show ?thesis
    by (simp add: vp_missing)
qed

subsection \<open>Zero is the only rejected value\<close>



lemma X_input_cell: "c \<in> set F \<Longrightarrow> (c, map_of (input_dict f) c) \<in> set (X_input F f)"
  by (auto simp add: X_input_def DataFrame_def)



subsection \<open>Facts about the load and the frame\<close>







subsection \<open>The ODI widget\<close>

lemma form_ok_sample: "form_ok sample_form"
  by (simp add: form_ok_def sample_form_def in_bounds_def height_input_def medication_input_def
      odi_input_def vas_input_def device_input_def)

text \<open>
  C5: the ODI widget accepts exactly the values from 0 to 100, whatever its label and the
  instructions say about 50; an accepted value leaves the form a valid one and reaches the
  dictionary, and the frame when \<open>ODI\<close> is a declared feature, unchanged.
\<close>

theorem odi_accepts_0_to_100:
  "(in_bounds odi_input v \<longleftrightarrow> 0 \<le> v \<and> v \<le> 100) \<and>
   (0 \<le> v \<and> v \<le> 100 \<longrightarrow>
      (form_ok f \<longrightarrow> form_ok (f\<lparr>odi := v\<rparr>)) \<and>
      map_of (input_dict (f\<lparr>odi := v\<rparr>)) ''ODI'' = Some (FloatVal v) \<and>
      (''ODI'' \<in> set F \<longrightarrow> (''ODI'', Some (FloatVal v)) \<in> set (X_input F (f\<lparr>odi := v\<rparr>))))"
proof -
  have b: "in_bounds odi_input v \<longleftrightarrow> 0 \<le> v \<and> v \<le> 100"
    by (simp add: in_bounds_def odi_input_def)
  have k: "form_ok (f\<lparr>odi := v\<rparr>)" if "form_ok f" and "0 \<le> v \<and> v \<le> 100"
    using that by (simp add: form_ok_def b)
  have d: "map_of (input_dict (f\<lparr>odi := v\<rparr>)) ''ODI'' = Some (FloatVal v)"
    by (simp add: input_dict_def)
  have x: "(''ODI'', Some (FloatVal v)) \<in> set (X_input F (f\<lparr>odi := v\<rparr>))" if "''ODI'' \<in> set F"
    using X_input_cell [OF that, of "f\<lparr>odi := v\<rparr>"] d by simp
  from b k d x show ?thesis
    by blast
qed

text \<open>
  An ODI of 75, above the 50 of the label, is accepted and passed on.
\<close>

theorem odi_accepts_0_to_100_witness:
  "in_bounds odi_input 75 \<and> form_ok (sample_form\<lparr>odi := 75\<rparr>) \<and>
   map_of (input_dict (sample_form\<lparr>odi := 75\<rparr>)) ''ODI'' = Some (FloatVal 75) \<and>
   (''ODI'', Some (FloatVal 75)) \<in> set (X_input sample_features (sample_form\<lparr>odi := 75\<rparr>))"
proof -
  have o: "''ODI'' \<in> set sample_features"
    by (simp add: sample_features_def)
  have r: "(0::real) \<le> 75 \<and> (75::real) \<le> 100"
    by simp
  from odi_accepts_0_to_100 [of 75 sample_form sample_features] o r form_ok_sample
  show ?thesis
    by blast
qed

subsection \<open>Missing measurements\<close>

lemma join_concat:
  "join sep xs = (case xs of [] \<Rightarrow> '''' | n # ns \<Rightarrow> n @ concat (map (\<lambda>x. sep @ x) ns))"
  by (induction sep xs rule: join.induct) simp_all

lemma missing_by_field:
  "missing f =
     (if ps_velocity f = 0 then [''Postural Stability Velocity''] else []) @
     (if ps_sway_area f = 0 then [''Postural Stability Sway Area''] else []) @
     (if ps_sway_path f = 0 then [''Postural Stability Sway Path''] else []) @
     (if w_velocity f = 0 then [''Walking Velocity''] else []) @
     (if w_duration f = 0 then [''Walking Duration''] else [])"
  by (simp add: missing_def required_fields_def)

text \<open>
  C1: when at least one of the five device measurements is exactly zero, the run fails with
  \<open>MissingMeasurement\<close>. The names it carries are those of the zero-valued fields and no
  others, each once, in the order of the form. The only element rendered is the warning, whose
  text is the fixed sentence followed by those names separated by a comma and a space. The
  classifier is not called and is left as it was.
\<close>

theorem zero_measurement_is_missing:
  assumes "ps_velocity f = 0 \<or> ps_sway_area f = 0 \<or> ps_sway_path f = 0 \<or>
           w_velocity f = 0 \<or> w_duration f = 0"
  shows "result (validate_and_predict pp F m f) = Inl (MissingMeasurement (missing f)) \<and>
         missing f =
           (if ps_velocity f = 0 then [''Postural Stability Velocity''] else []) @
           (if ps_sway_area f = 0 then [''Postural Stability Sway Area''] else []) @
           (if ps_sway_path f = 0 then [''Postural Stability Sway Path''] else []) @
           (if w_velocity f = 0 then [''Walking Velocity''] else []) @
           (if w_duration f = 0 then [''Walking Duration''] else []) \<and>
         (''Postural Stability Velocity'' \<in> set (missing f) \<longleftrightarrow> ps_velocity f = 0) \<and>
         (''Postural Stability Sway Area'' \<in> set (missing f) \<longleftrightarrow> ps_sway_area f = 0) \<and>
         (''Postural Stability Sway Path'' \<in> set (missing f) \<longleftrightarrow> ps_sway_path f = 0) \<and>
         (''Walking Velocity'' \<in> set (missing f) \<longleftrightarrow> w_velocity f = 0) \<and>
         (''Walking Duration'' \<in> set (missing f) \<longleftrightarrow> w_duration f = 0) \<and>
         set (missing f) \<subseteq> fst ` set (required_fields f) \<and>
         distinct (missing f) \<and>
         shown (validate_and_predict pp F m f) =
           [Warning
             ([CHR 0xE2, CHR 0x9A, CHR 0xA0, CHR 0xEF, CHR 0xB8, CHR 0x8F] @
              '' Please complete the Postural Stability and Walking test measurements '' @
              ''using the Lockhart Monitor app before prediction.'' @ [CHR 0x0A, CHR 0x0A] @
              ''Missing or zero values: '' @
              (case missing f of
                 [] \<Rightarrow> ''''
               | n # ns \<Rightarrow> n @ concat (map (\<lambda>x. '', '' @ x) ns)))] \<and>
         shown (validate_and_predict pp F m f) = [Warning (warning_text (missing f))] \<and>
         calls (validate_and_predict pp F m f) = [] \<and>
         model_after (validate_and_predict pp F m f) = m"
proof -
  from assms have nm: "\<not> measured f"
    by (auto simp add: measured_def)
  have sub: "set (missing f) \<subseteq> fst ` set (required_fields f)"
    by (auto simp add: missing_def)
  have message: "warning_text (missing f) =
      [CHR 0xE2, CHR 0x9A, CHR 0xA0, CHR 0xEF, CHR 0xB8, CHR 0x8F] @
      '' Please complete the Postural Stability and Walking test measurements '' @
      ''using the Lockhart Monitor app before prediction.'' @ [CHR 0x0A, CHR 0x0A] @
      ''Missing or zero values: '' @
      (case missing f of
         [] \<Rightarrow> ''''
       | n # ns \<Rightarrow> n @ concat (map (\<lambda>x. '', '' @ x) ns))"
    unfolding warning_text_def by (subst join_concat) (rule refl)
  have run: "validate_and_predict pp F m f =
     \<lparr>result = Inl (MissingMeasurement (missing f)),
      shown = [Warning (warning_text (missing f))], calls = [], model_after = m\<rparr>"
    using nm by (rule vp_missing)
  have members:
    "(''Postural Stability Velocity'' \<in> set (missing f) \<longleftrightarrow> ps_velocity f = 0) \<and>
     (''Postural Stability Sway Area'' \<in> set (missing f) \<longleftrightarrow> ps_sway_area f = 0) \<and>
     (''Postural Stability Sway Path'' \<in> set (missing f) \<longleftrightarrow> ps_sway_path f = 0) \<and>
     (''Walking Velocity'' \<in> set (missing f) \<longleftrightarrow> w_velocity f = 0) \<and>
     (''Walking Duration'' \<in> set (missing f) \<longleftrightarrow> w_duration f = 0)"
    by (simp add: set_missing)
  have shown_name: "shown (validate_and_predict pp F m f) = [Warning (warning_text (missing f))]"
    by (simp add: run)
  have shown_txt: "shown (validate_and_predict pp F m f) =
           [Warning
             ([CHR 0xE2, CHR 0x9A, CHR 0xA0, CHR 0xEF, CHR 0xB8, CHR 0x8F] @
              '' Please complete the Postural Stability and Walking test measurements '' @
              ''using the Lockhart Monitor app before prediction.'' @ [CHR 0x0A, CHR 0x0A] @
              ''Missing or zero values: '' @
              (case missing f of
                 [] \<Rightarrow> ''''
               | n # ns \<Rightarrow> n @ concat (map (\<lambda>x. '', '' @ x) ns)))]"
    unfolding shown_name by (simp only: message)
  have rest: "result (validate_and_predict pp F m f) = Inl (MissingMeasurement (missing f)) \<and>
         calls (validate_and_predict pp F m f) = [] \<and>
         model_after (validate_and_predict pp F m f) = m"
    by (simp add: run)
  from rest missing_by_field [of f] members sub distinct_missing [of f] shown_txt shown_name
  show ?thesis
    by (intro conjI) (elim conjE, assumption)+
qed

text \<open>
  The scenario with the sway velocity and the walking duration left at zero, and the text of
  its warning.
\<close>

theorem zero_measurement_is_missing_witness:
  "result (validate_and_predict sample_classifier sample_features 0
      (sample_form\<lparr>ps_velocity := 0, w_duration := 0\<rparr>)) =
     Inl (MissingMeasurement [''Postural Stability Velocity'', ''Walking Duration'']) \<and>
   shown (validate_and_predict sample_classifier sample_features 0
      (sample_form\<lparr>ps_velocity := 0, w_duration := 0\<rparr>)) =
     [Warning
       ([CHR 0xE2, CHR 0x9A, CHR 0xA0, CHR 0xEF, CHR 0xB8, CHR 0x8F] @
        '' Please complete the Postural Stability and Walking test measurements '' @
        ''using the Lockhart Monitor app before prediction.'' @ [CHR 0x0A, CHR 0x0A] @
        ''Missing or zero values: Postural Stability Velocity, Walking Duration'')] \<and>
   calls (validate_and_predict sample_classifier sample_features 0
      (sample_form\<lparr>ps_velocity := 0, w_duration := 0\<rparr>)) = []"
proof -
  have z: "ps_velocity (sample_form\<lparr>ps_velocity := 0, w_duration := 0\<rparr>) = 0"
    by simp
  have ms: "missing (sample_form\<lparr>ps_velocity := 0, w_duration := 0\<rparr>) =
      [''Postural Stability Velocity'', ''Walking Duration'']"
    by (simp add: missing_def required_fields_def sample_form_def)
  note t = zero_measurement_is_missing
    [of "sample_form\<lparr>ps_velocity := 0, w_duration := 0\<rparr>" sample_classifier sample_features 0]
  from t z have r: "result (validate_and_predict sample_classifier sample_features 0
      (sample_form\<lparr>ps_velocity := 0, w_duration := 0\<rparr>)) =
     Inl (MissingMeasurement (missing (sample_form\<lparr>ps_velocity := 0, w_duration := 0\<rparr>)))"
    by blast
  from t z have s: "shown (validate_and_predict sample_classifier sample_features 0
      (sample_form\<lparr>ps_velocity := 0, w_duration := 0\<rparr>)) =
     [Warning
             ([CHR 0xE2, CHR 0x9A, CHR 0xA0, CHR 0xEF, CHR 0xB8, CHR 0x8F] @
              '' Please complete the Postural Stability and Walking test measurements '' @
              ''using the Lockhart Monitor app before prediction.'' @ [CHR 0x0A, CHR 0x0A] @
              ''Missing or zero values: '' @
              (case missing (sample_form\<lparr>ps_velocity := 0, w_duration := 0\<rparr>) of
                 [] \<Rightarrow> ''''
               | n # ns \<Rightarrow> n @ concat (map (\<lambda>x. '', '' @ x) ns)))]"
    by blast
  from t z have c: "calls (validate_and_predict sample_classifier sample_features 0
      (sample_form\<lparr>ps_velocity := 0, w_duration := 0\<rparr>)) = []"
    by blast
  from r s c show ?thesis
    unfolding ms by simp
qed

subsection \<open>Determinism\<close>







subsection \<open>The rendered probability, label and banner\<close>

lemma of_char_digit: "(of_char (digit n) :: nat) = 48 + n mod 10"
proof -
  have "n mod 10 = 0 \<or> n mod 10 = 1 \<or> n mod 10 = 2 \<or> n mod 10 = 3 \<or> n mod 10 = 4 \<or>
        n mod 10 = 5 \<or> n mod 10 = 6 \<or> n mod 10 = 7 \<or> n mod 10 = 8 \<or> n mod 10 = 9"
    by presburger
  then show ?thesis
    unfolding digit_def by (elim disjE) simp_all
qed

lemma read_snoc:
  "foldl (\<lambda>n ch. 10 * n + (of_char ch - 48)) (0::nat) (ds @ [digit k]) =
     10 * foldl (\<lambda>n ch. 10 * n + (of_char ch - 48)) 0 ds + k mod 10"
  by (simp add: of_char_digit)

lemma read_str_nat: "foldl (\<lambda>n ch. 10 * n + (of_char ch - 48)) (0::nat) (str_nat k) = k"
proof (induction k rule: str_nat.induct)
  case (1 n)
  show ?case
  proof (cases "n < 10")
    case True
    then have "str_nat n = [digit n]"
      by (subst str_nat.simps) simp
    with True show ?thesis
      by (simp add: of_char_digit)
  next
    case False
    then have s: "str_nat n = str_nat (n div 10) @ [digit n]"
      by (subst str_nat.simps) simp
    from 1 False
    have "foldl (\<lambda>n ch. 10 * n + (of_char ch - 48)) (0::nat) (str_nat (n div 10)) = n div 10"
      by simp
    then show ?thesis
      unfolding s read_snoc by simp
  qed
qed

lemma str_nat_not_Nil: "str_nat k \<noteq> []"
  by (subst str_nat.simps) simp

lemma read_thousandths:
  "foldl (\<lambda>n ch. 10 * n + (of_char ch - 48)) (0::nat)
     (str_nat (k div 1000) @ [digit (k div 100), digit (k div 10), digit k]) = k"
proof -
  have "str_nat (k div 1000) @ [digit (k div 100), digit (k div 10), digit k] =
        ((str_nat (k div 1000) @ [digit (k div 100)]) @ [digit (k div 10)]) @ [digit k]"
    by simp
  then have "foldl (\<lambda>n ch. 10 * n + (of_char ch - 48)) (0::nat)
     (str_nat (k div 1000) @ [digit (k div 100), digit (k div 10), digit k]) =
     10 * (10 * (10 * (k div 1000) + k div 100 mod 10) + k div 10 mod 10) + k mod 10"
    by (simp only: read_snoc read_str_nat)
  also have "\<dots> = k"
  proof -
    have h: "k div 100 = k div 10 div 10" and t: "k div 1000 = k div 10 div 10 div 10"
      by (simp_all add: div_mult2_eq)
    show ?thesis
      unfolding h t by simp
  qed
  finally show ?thesis .
qed



lemma round_half_even_near: "\<bar>x - of_int (round_half_even x)\<bar> \<le> 1 / 2"
proof -
  have "of_int \<lfloor>x\<rfloor> \<le> x" and "x < of_int \<lfloor>x\<rfloor> + 1"
    by linarith+
  then show ?thesis
    unfolding round_half_even_def Let_def by (auto simp add: abs_le_iff)
qed

lemma round_half_even_nonneg: "0 \<le> x \<Longrightarrow> 0 \<le> round_half_even x"
  unfolding round_half_even_def Let_def by (auto simp add: zero_le_floor intro: add_nonneg_nonneg)


lemma format_3f_reads_back:
  "\<exists>ds a b c.
     format_3f x = (if x < 0 then ''-'' else '''') @ ds @ ''.'' @ [a, b, c] \<and>
     ds \<noteq> [] \<and> set (ds @ [a, b, c]) \<subseteq> set ''0123456789'' \<and>
     \<bar>\<bar>x\<bar> * 1000 -
        real (foldl (\<lambda>n ch. 10 * n + (of_char ch - 48)) (0::nat) (ds @ [a, b, c]))\<bar> \<le> 1 / 2"
proof -
  define k where "k = nat (round_half_even (\<bar>x\<bar> * 1000))"
  have "0 \<le> round_half_even (\<bar>x\<bar> * 1000)"
    by (rule round_half_even_nonneg) simp
  then have "real k = of_int (round_half_even (\<bar>x\<bar> * 1000))"
    by (simp add: k_def)
  with round_half_even_near [of "\<bar>x\<bar> * 1000"] have near: "\<bar>\<bar>x\<bar> * 1000 - real k\<bar> \<le> 1 / 2"
    by simp
  have shape: "format_3f x = (if x < 0 then ''-'' else '''') @ str_nat (k div 1000) @ ''.'' @
      [digit (k div 100), digit (k div 10), digit k]"
    by (simp add: format_3f_def Let_def k_def)
  have digits: "set (str_nat (k div 1000) @ [digit (k div 100), digit (k div 10), digit k])
      \<subseteq> set ''0123456789''"
    using str_nat_decimal [of "k div 1000"] digit_decimal [of "k div 100"]
      digit_decimal [of "k div 10"] digit_decimal [of k]
    by simp
  from near have "\<bar>\<bar>x\<bar> * 1000 -
        real (foldl (\<lambda>n ch. 10 * n + (of_char ch - 48)) (0::nat)
          (str_nat (k div 1000) @ [digit (k div 100), digit (k div 10), digit k]))\<bar> \<le> 1 / 2"
    by (simp only: read_thousandths)
  with shape digits str_nat_not_Nil [of "k div 1000"] show ?thesis
    by blast
qed

lemma str_int_pred: "str_int (label p) = (if label p = 1 then ''1'' else ''0'')"
  by (simp add: label_def str_int_def str_nat.simps digit_def)


text \<open>
  C8: on every successful prediction the rendered output is three elements. The first carries
  the probability the classifier returned, written as a sign when it is negative, an integer
  part, a point and exactly three decimal digits, and the number written is within half a
  thousandth of the probability. The second carries the label, written \<open>1\<close> when the
  probability is at least 0.50 and \<open>0\<close> otherwise. The third is one banner, the High Fall
  Risk error when the label is 1 and the Low Fall Risk success when the label is 0. Exactly one
  element of the output is a banner.
\<close>

theorem one_risk_banner:
  assumes "result (validate_and_predict pp F m f) = Inr r"
  shows "shown (validate_and_predict pp F m f) =
           [Write (''**Probability of Faller (%):** `'' @ format_3f (proba_fall r) @ ''`''),
            Write (''**Predicted Fall Status:** `'' @ str_int (pred r) @ ''`''),
            (if pred r = 1 then Error ''**High Fall Risk** (Predicted: Faller = 1)''
             else Success ''**Low Fall Risk** (Predicted: Non-faller = 0)'')] \<and>
         (pred r = 1 \<or> pred r = 0) \<and>
         (Error ''**High Fall Risk** (Predicted: Faller = 1)''
            \<in> set (shown (validate_and_predict pp F m f)) \<longleftrightarrow> pred r = 1) \<and>
         (Success ''**Low Fall Risk** (Predicted: Non-faller = 0)''
            \<in> set (shown (validate_and_predict pp F m f)) \<longleftrightarrow> pred r = 0) \<and>
         length (filter is_banner (shown (validate_and_predict pp F m f))) = 1 \<and>
         (\<exists>s a b c. format_3f (proba_fall r) = s @ ''.'' @ [a, b, c] \<and>
            a \<in> set ''0123456789'' \<and> b \<in> set ''0123456789'' \<and> c \<in> set ''0123456789'' \<and>
            CHR ''.'' \<notin> set s) \<and>
         (str_int (pred r) = ''1'' \<or> str_int (pred r) = ''0'') \<and>
         index01 (fst (pp m (X_input F f))) = Some (proba_fall r) \<and>
         (pred r = 1 \<longleftrightarrow> proba_fall r \<ge> 0.50) \<and>
         str_int (pred r) = (if pred r = 1 then ''1'' else ''0'') \<and>
         (\<exists>ds a b c.
            format_3f (proba_fall r) =
              (if proba_fall r < 0 then ''-'' else []) @ ds @ ''.'' @ [a, b, c] \<and>
            ds \<noteq> [] \<and> set (ds @ [a, b, c]) \<subseteq> set ''0123456789'' \<and>
            \<bar>\<bar>proba_fall r\<bar> * 1000 -
               real (foldl (\<lambda>n ch. 10 * n + (of_char ch - 48)) (0::nat) (ds @ [a, b, c]))\<bar>
              \<le> 1 / 2)"
proof -
  note r = result_Inr [OF assms]
  from r have sh: "shown (validate_and_predict pp F m f) = render r"
    by simp
  from r have pr: "pred r = label (proba_fall r)"
    by simp
  from r have ix: "index01 (fst (pp m (X_input F f))) = Some (proba_fall r)"
    by simp
  have cases: "pred r = 1 \<or> pred r = 0"
    unfolding pr by (rule label_cases)
  have thr: "pred r = 1 \<longleftrightarrow> proba_fall r \<ge> 0.50"
    unfolding pr by (simp add: label_def)
  have str: "str_int (pred r) = ''1'' \<or> str_int (pred r) = ''0''"
    unfolding pr by (simp add: str_int_label)
  have str': "str_int (pred r) = (if pred r = 1 then ''1'' else ''0'')"
    unfolding pr by (rule str_int_pred)
  from cases have banners:
    "(Error ''**High Fall Risk** (Predicted: Faller = 1)'' \<in> set (render r) \<longleftrightarrow> pred r = 1) \<and>
     (Success ''**Low Fall Risk** (Predicted: Non-faller = 0)'' \<in> set (render r) \<longleftrightarrow> pred r = 0) \<and>
     length (filter is_banner (render r)) = 1"
    by (auto simp add: render_def)
  have elements: "shown (validate_and_predict pp F m f) =
           [Write (''**Probability of Faller (%):** `'' @ format_3f (proba_fall r) @ ''`''),
            Write (''**Predicted Fall Status:** `'' @ str_int (pred r) @ ''`''),
            (if pred r = 1 then Error ''**High Fall Risk** (Predicted: Faller = 1)''
             else Success ''**Low Fall Risk** (Predicted: Non-faller = 0)'')]"
    unfolding sh by (simp add: render_def)
  from banners have b1: "Error ''**High Fall Risk** (Predicted: Faller = 1)''
            \<in> set (shown (validate_and_predict pp F m f)) \<longleftrightarrow> pred r = 1"
    unfolding sh by (rule conjunct1)
  from banners have b2: "Success ''**Low Fall Risk** (Predicted: Non-faller = 0)''
            \<in> set (shown (validate_and_predict pp F m f)) \<longleftrightarrow> pred r = 0"
    unfolding sh by (elim conjE)
  from banners have b3: "length (filter is_banner (shown (validate_and_predict pp F m f))) = 1"
    unfolding sh by (elim conjE)
  from elements cases b1 b2 b3 format_3f_shape [of "proba_fall r"] str ix thr str'
    format_3f_reads_back [of "proba_fall r"]
  show ?thesis
    by (intro conjI)
qed

lemma format_3f_sample: "format_3f (1 / 8) = ''0.125''"
  by code_simp

lemma format_3f_sample_high: "format_3f (3 / 4) = ''0.750''"
  by code_simp

lemma str_int_0: "str_int 0 = ''0''"
  by code_simp

lemma str_int_1: "str_int 1 = ''1''"
  by code_simp

lemma measured_odi: "measured (sample_form\<lparr>odi := 50\<rparr>)"
  by (simp add: measured_def sample_form_def)

lemma sample_result:
  "result (validate_and_predict sample_classifier sample_features 0 sample_form) =
     Inr \<lparr>proba_fall = 0.125, pred = 0\<rparr>"
  by (simp add: vp_measured [OF measured_sample] sample_answer index01_def label_def)

lemma sample_answer_high:
  "fst (sample_classifier m (X_input sample_features (sample_form\<lparr>odi := 50\<rparr>))) =
     [[0.25, 0.75]]"
  by (simp add: sample_classifier_def X_input_def DataFrame_def input_dict_def
      sample_features_def sample_form_def)

lemma sample_result_high:
  "result (validate_and_predict sample_classifier sample_features 0 (sample_form\<lparr>odi := 50\<rparr>)) =
     Inr \<lparr>proba_fall = 0.75, pred = 1\<rparr>"
  by (simp add: vp_measured [OF measured_odi] sample_answer_high index01_def label_def)

text \<open>
  The scenario of the specification renders 0.125, the label 0 and the Low Fall Risk banner;
  with an ODI of 50 it renders 0.750, the label 1 and the High Fall Risk banner.
\<close>

theorem one_risk_banner_witness:
  "shown (validate_and_predict sample_classifier sample_features 0 sample_form) =
     [Write ''**Probability of Faller (%):** `0.125`'',
      Write ''**Predicted Fall Status:** `0`'',
      Success ''**Low Fall Risk** (Predicted: Non-faller = 0)''] \<and>
   shown (validate_and_predict sample_classifier sample_features 0 (sample_form\<lparr>odi := 50\<rparr>)) =
     [Write ''**Probability of Faller (%):** `0.750`'',
      Write ''**Predicted Fall Status:** `1`'',
      Error ''**High Fall Risk** (Predicted: Faller = 1)'']"
proof -
  note t = one_risk_banner [OF sample_result]
  from t have "shown (validate_and_predict sample_classifier sample_features 0 sample_form) =
           [Write (''**Probability of Faller (%):** `'' @
                   format_3f (proba_fall \<lparr>proba_fall = 0.125, pred = 0\<rparr>) @ ''`''),
            Write (''**Predicted Fall Status:** `'' @
                   str_int (pred \<lparr>proba_fall = 0.125, pred = 0\<rparr>) @ ''`''),
            (if pred \<lparr>proba_fall = 0.125, pred = 0\<rparr> = 1
             then Error ''**High Fall Risk** (Predicted: Faller = 1)''
             else Success ''**Low Fall Risk** (Predicted: Non-faller = 0)'')]"
    by (rule conjunct1)
  then have low: "shown (validate_and_predict sample_classifier sample_features 0 sample_form) =
     [Write ''**Probability of Faller (%):** `0.125`'',
      Write ''**Predicted Fall Status:** `0`'',
      Success ''**Low Fall Risk** (Predicted: Non-faller = 0)'']"
    by (simp add: format_3f_sample str_int_0)
  note u = one_risk_banner [OF sample_result_high]
  from u have "shown (validate_and_predict sample_classifier sample_features 0
                 (sample_form\<lparr>odi := 50\<rparr>)) =
           [Write (''**Probability of Faller (%):** `'' @
                   format_3f (proba_fall \<lparr>proba_fall = 0.75, pred = 1\<rparr>) @ ''`''),
            Write (''**Predicted Fall Status:** `'' @
                   str_int (pred \<lparr>proba_fall = 0.75, pred = 1\<rparr>) @ ''`''),
            (if pred \<lparr>proba_fall = 0.75, pred = 1\<rparr> = 1
             then Error ''**High Fall Risk** (Predicted: Faller = 1)''
             else Success ''**Low Fall Risk** (Predicted: Non-faller = 0)'')]"
    by (rule conjunct1)
  then have high: "shown (validate_and_predict sample_classifier sample_features 0
                 (sample_form\<lparr>odi := 50\<rparr>)) =
     [Write ''**Probability of Faller (%):** `0.750`'',
      Write ''**Predicted Fall Status:** `1`'',
      Error ''**High Fall Risk** (Predicted: Faller = 1)'']"
    by (simp add: format_3f_sample_high str_int_1)
  from low high show ?thesis
    by (intro conjI)
qed

subsection \<open>Runs on a mismatched feature list\<close>



lemma rendered_Render: "rendered (map Render ys) = ys"
  by (induction ys) simp_all



















subsection \<open>Load failures\<close>





end
